theory Spec2Isabelle
  imports Complex_Main "HOL-Library.Product_Lexorder" "HOL-Library.Multiset"
begin

section \<open>Data model\<close>

text \<open>
  The module \<^verbatim>\<open>server.py\<close> keeps its reviews in a module-level list of dictionaries.
  A dictionary is a mutable object: the list holds references, and
  \<^verbatim>\<open>reviews.copy()\<close> copies the references, not the dictionaries. The embedding
  therefore separates the list of references (\<open>reviews\<close>) from the objects they point to
  (\<open>heap\<close>).

  Exceptions of the source are values of \<open>error\<close>. The fields of a review dictionary are
  the columns of the seed file plus the key \<^verbatim>\<open>sentiment\<close>, which a dictionary
  may or may not have. The scores of the sentiment analyser are floating-point numbers that
  the program only stores and compares; they are modelled as real numbers.
\<close>

datatype error = ValueError | IndexError | KeyError

record sentiment_scores =
  neg :: real
  neu :: real
  pos :: real
  compound :: real

record review =
  ReviewId :: "string option"
  ReviewBody :: string
  Location :: string
  Timestamp :: string
  sentiment :: "sentiment_scores option"

type_synonym addr = nat

type_synonym heap = "addr \<Rightarrow> review"

record state =
  reviews :: "addr list"
  heap :: heap

text \<open>The result of \<^verbatim>\<open>parse_qs\<close>: a dictionary from keys to lists of values.\<close>

type_synonym params = "string \<rightharpoonup> string list"

text \<open>
  A naive \<^verbatim>\<open>datetime\<close> is year, month, day, hour, minute, second; Python
  compares two of them field by field in this order, which is the lexicographic order of
  the tuple. (\<^verbatim>\<open>strptime\<close> with the two formats of the program never sets
  microseconds, and \<^verbatim>\<open>strftime\<close> with the format of the program drops them.)
\<close>

type_synonym datetime = "nat \<times> nat \<times> nat \<times> nat \<times> nat \<times> nat"

section \<open>\<^verbatim>\<open>datetime.strptime\<close> and \<^verbatim>\<open>strftime\<close> for the formats of the program\<close>

text \<open>
  \<^verbatim>\<open>strptime\<close> turns the format into a regular expression, matches it at the start
  of the string, raises \<^verbatim>\<open>ValueError\<close> when there is no match or when text
  remains after the match, and then builds the \<^verbatim>\<open>datetime\<close>, which raises
  \<^verbatim>\<open>ValueError\<close> for a date or time out of range. The directives used here are
  \<^verbatim>\<open>%Y = \d\d\d\d\<close>, \<^verbatim>\<open>%m = 1[0-2]|0[1-9]|[1-9]\<close>,
  \<^verbatim>\<open>%d = 3[0-1]|[1-2]\d|0[1-9]|[1-9]| [1-9]\<close>,
  \<^verbatim>\<open>%H = 2[0-3]|[0-1]\d|\d\<close>, \<^verbatim>\<open>%M = [0-5]\d|\d\<close>,
  \<^verbatim>\<open>%S = 6[0-1]|[0-5]\d|\d\<close>, and a blank of the format is \<^verbatim>\<open>\s+\<close>.
  A matcher returns every way of matching a prefix, in the order in which a backtracking
  matcher tries them, each with the text that remains; \<open>None\<close> stands for
  \<^verbatim>\<open>ValueError\<close>. Characters are bytes, so digits and blanks are the ASCII ones.
\<close>

definition digit_of :: "char \<Rightarrow> nat option" where
  "digit_of c = map_of
     [(CHR ''0'', 0), (CHR ''1'', 1), (CHR ''2'', 2), (CHR ''3'', 3), (CHR ''4'', 4),
      (CHR ''5'', 5), (CHR ''6'', 6), (CHR ''7'', 7), (CHR ''8'', 8), (CHR ''9'', 9)] c"

fun re_digit :: "nat \<Rightarrow> nat \<Rightarrow> string \<Rightarrow> (nat \<times> string) list" where
  "re_digit lo hi [] = []"
| "re_digit lo hi (c # cs) =
     (case digit_of c of
        None \<Rightarrow> []
      | Some n \<Rightarrow> if lo \<le> n \<and> n \<le> hi then [(n, cs)] else [])"

definition re_two ::
  "(string \<Rightarrow> (nat \<times> string) list) \<Rightarrow> (string \<Rightarrow> (nat \<times> string) list) \<Rightarrow>
   string \<Rightarrow> (nat \<times> string) list" where
  "re_two p q s = [(10 * a + b, r'). (a, r) \<leftarrow> p s, (b, r') \<leftarrow> q r]"

fun re_char :: "char \<Rightarrow> string \<Rightarrow> string list" where
  "re_char c [] = []"
| "re_char c (x # xs) = (if x = c then [xs] else [])"

definition is_space :: "char \<Rightarrow> bool" where
  "is_space c = (c \<in> set [CHR '' '', CHR 0x09, CHR 0x0A, CHR 0x0B, CHR 0x0C, CHR 0x0D,
                           CHR 0x1C, CHR 0x1D, CHR 0x1E, CHR 0x1F])"

fun re_spaces :: "string \<Rightarrow> string list" where
  "re_spaces [] = [[]]"
| "re_spaces (c # cs) = (if is_space c then re_spaces cs @ [c # cs] else [c # cs])"

definition re_spaces1 :: "string \<Rightarrow> string list" where
  "re_spaces1 s = (case s of [] \<Rightarrow> [] | c # cs \<Rightarrow> if is_space c then re_spaces cs else [])"

definition re_Y :: "string \<Rightarrow> (nat \<times> string) list" where
  "re_Y = re_two (re_two (re_two (re_digit 0 9) (re_digit 0 9)) (re_digit 0 9)) (re_digit 0 9)"

definition re_m :: "string \<Rightarrow> (nat \<times> string) list" where
  "re_m s = re_two (re_digit 1 1) (re_digit 0 2) s @ re_two (re_digit 0 0) (re_digit 1 9) s
            @ re_digit 1 9 s"

definition re_d :: "string \<Rightarrow> (nat \<times> string) list" where
  "re_d s = re_two (re_digit 3 3) (re_digit 0 1) s @ re_two (re_digit 1 2) (re_digit 0 9) s
            @ re_two (re_digit 0 0) (re_digit 1 9) s @ re_digit 1 9 s
            @ [(n, r'). r \<leftarrow> re_char (CHR '' '') s, (n, r') \<leftarrow> re_digit 1 9 r]"

definition re_H :: "string \<Rightarrow> (nat \<times> string) list" where
  "re_H s = re_two (re_digit 2 2) (re_digit 0 3) s @ re_two (re_digit 0 1) (re_digit 0 9) s
            @ re_digit 0 9 s"

definition re_M :: "string \<Rightarrow> (nat \<times> string) list" where
  "re_M s = re_two (re_digit 0 5) (re_digit 0 9) s @ re_digit 0 9 s"

definition re_S :: "string \<Rightarrow> (nat \<times> string) list" where
  "re_S s = re_two (re_digit 6 6) (re_digit 0 1) s @ re_two (re_digit 0 5) (re_digit 0 9) s
            @ re_digit 0 9 s"

definition is_leap :: "nat \<Rightarrow> bool" where
  "is_leap y = (y mod 4 = 0 \<and> (y mod 100 \<noteq> 0 \<or> y mod 400 = 0))"

definition days_in_month :: "nat \<Rightarrow> nat \<Rightarrow> nat" where
  "days_in_month y m =
     (if m = 2 then (if is_leap y then 29 else 28)
      else if m = 4 \<or> m = 6 \<or> m = 9 \<or> m = 11 then 30 else 31)"

text \<open>The range checks of the \<^verbatim>\<open>datetime\<close> constructor.\<close>

definition valid_datetime :: "datetime \<Rightarrow> bool" where
  "valid_datetime t =
     (case t of (y, m, d, H, M, S) \<Rightarrow>
        1 \<le> y \<and> y \<le> 9999 \<and> 1 \<le> m \<and> m \<le> 12 \<and> 1 \<le> d \<and> d \<le> days_in_month y m
        \<and> H \<le> 23 \<and> M \<le> 59 \<and> S \<le> 59)"

definition first_match :: "(datetime \<times> string) list \<Rightarrow> datetime option" where
  "first_match ms =
     (case ms of
        [] \<Rightarrow> None
      | (t, rest) # _ \<Rightarrow> if rest \<noteq> [] then None else if valid_datetime t then Some t else None)"

text \<open>\<^verbatim>\<open>datetime.datetime.strptime(s, "%Y-%m-%d")\<close>: the time of day is 0:00:00.\<close>

definition strptime_date :: "string \<Rightarrow> datetime option" where
  "strptime_date s = first_match
     [((y, m, d, 0, 0, 0), r5).
        (y, r1) \<leftarrow> re_Y s, r2 \<leftarrow> re_char (CHR ''-'') r1, (m, r3) \<leftarrow> re_m r2,
        r4 \<leftarrow> re_char (CHR ''-'') r3, (d, r5) \<leftarrow> re_d r4]"

text \<open>\<^verbatim>\<open>datetime.datetime.strptime(s, "%Y-%m-%d %H:%M:%S")\<close>.\<close>

definition strptime_ts :: "string \<Rightarrow> datetime option" where
  "strptime_ts s = first_match
     [((y, m, d, H, M, S), r11).
        (y, r1) \<leftarrow> re_Y s, r2 \<leftarrow> re_char (CHR ''-'') r1, (m, r3) \<leftarrow> re_m r2,
        r4 \<leftarrow> re_char (CHR ''-'') r3, (d, r5) \<leftarrow> re_d r4, r6 \<leftarrow> re_spaces1 r5,
        (H, r7) \<leftarrow> re_H r6, r8 \<leftarrow> re_char (CHR '':'') r7, (M, r9) \<leftarrow> re_M r8,
        r10 \<leftarrow> re_char (CHR '':'') r9, (S, r11) \<leftarrow> re_S r10]"

text \<open>
  \<^verbatim>\<open>strftime("%Y-%m-%d %H:%M:%S")\<close> writes each field in decimal, padded with zeros
  to two digits. The year is written with four digits, which is what every platform does
  for the years from 1000 on.
\<close>

definition digit_char :: "nat \<Rightarrow> char" where
  "digit_char n = ''0123456789'' ! (n mod 10)"

definition pad2 :: "nat \<Rightarrow> string" where
  "pad2 n = [digit_char (n div 10), digit_char n]"

definition pad4 :: "nat \<Rightarrow> string" where
  "pad4 n = [digit_char (n div 1000), digit_char (n div 100), digit_char (n div 10), digit_char n]"

definition strftime_ts :: "datetime \<Rightarrow> string" where
  "strftime_ts t =
     (case t of (y, m, d, H, M, S) \<Rightarrow>
        pad4 y @ ''-'' @ pad2 m @ ''-'' @ pad2 d @ '' '' @ pad2 H @ '':'' @ pad2 M @ '':'' @ pad2 S)"

section \<open>The date filter\<close>

text \<open>
  The list comprehensions of \<^verbatim>\<open>filter_by_date_range\<close> parse the
  \<^verbatim>\<open>Timestamp\<close> of every review of the list, in order; a timestamp that does not
  parse raises \<^verbatim>\<open>ValueError\<close>, which nothing catches.
\<close>

fun filter_timestamps :: "(datetime \<Rightarrow> bool) \<Rightarrow> heap \<Rightarrow> addr list \<Rightarrow> error + addr list" where
  "filter_timestamps keep h [] = Inr []"
| "filter_timestamps keep h (a # as) =
     (case strptime_ts (Timestamp (h a)) of
        None \<Rightarrow> Inl ValueError
      | Some t \<Rightarrow>
          (case filter_timestamps keep h as of
             Inl e \<Rightarrow> Inl e
           | Inr kept \<Rightarrow> Inr (if keep t then a # kept else kept)))"

text \<open>
  \<^verbatim>\<open>filter_by_date_range(filtered_reviews, query_params)\<close>. Indexing an empty list
  of values with \<^verbatim>\<open>[0]\<close> raises \<^verbatim>\<open>IndexError\<close>, which the
  \<^verbatim>\<open>except ValueError\<close> clauses do not catch. A date that does not parse makes
  the function return the list it was given.
\<close>

definition filter_by_date_range :: "heap \<Rightarrow> addr list \<Rightarrow> params \<Rightarrow> error + addr list" where
  "filter_by_date_range h filtered_reviews query_params =
     (case query_params ''start_date'' of
        Some [] \<Rightarrow> Inl IndexError
      | Some (v # _) \<Rightarrow>
          (case strptime_date v of
             None \<Rightarrow> Inr filtered_reviews
           | Some start_date \<Rightarrow>
               (case query_params ''end_date'' of
                  Some [] \<Rightarrow> Inl IndexError
                | Some (w # _) \<Rightarrow>
                    (case strptime_date w of
                       None \<Rightarrow> Inr filtered_reviews
                     | Some end_date \<Rightarrow>
                         filter_timestamps (\<lambda>t. start_date \<le> t \<and> t \<le> end_date) h filtered_reviews)
                | None \<Rightarrow> filter_timestamps (\<lambda>t. start_date \<le> t) h filtered_reviews))
      | None \<Rightarrow>
          (case query_params ''end_date'' of
             Some [] \<Rightarrow> Inl IndexError
           | Some (w # _) \<Rightarrow>
               (case strptime_date w of
                  None \<Rightarrow> Inr filtered_reviews
                | Some end_date \<Rightarrow> filter_timestamps (\<lambda>t. t \<le> end_date) h filtered_reviews)
           | None \<Rightarrow> Inr filtered_reviews))"

section \<open>The request handler\<close>

definition allowed_locations :: "string list" where
  "allowed_locations =
     [''Albuquerque, New Mexico'', ''Carlsbad, California'', ''Chula Vista, California'',
      ''Colorado Springs, Colorado'', ''Denver, Colorado'', ''El Cajon, California'',
      ''El Paso, Texas'', ''Escondido, California'', ''Fresno, California'',
      ''La Mesa, California'', ''Las Vegas, Nevada'', ''Los Angeles, California'',
      ''Oceanside, California'', ''Phoenix, Arizona'', ''Sacramento, California'',
      ''Salt Lake City, Utah'', ''Salt Lake City, Utah'', ''San Diego, California'',
      ''Tucson, Arizona'']"

text \<open>
  What the handler reads of \<^verbatim>\<open>environ\<close>: the method, the query string after
  \<^verbatim>\<open>parse_qs\<close> and the request body after \<^verbatim>\<open>parse_qs\<close>.
\<close>

record environ =
  REQUEST_METHOD :: string
  QUERY_STRING :: params
  wsgi_input :: params

text \<open>
  The value handed to \<^verbatim>\<open>json.dumps\<close>, and what a call does: it raises, or it
  starts a response with a status line and returns that value, or (for a method that is
  neither GET nor POST) it falls off the end and returns \<^verbatim>\<open>None\<close>.
\<close>

datatype json = JsonReviews "review list" | JsonReview review | JsonError string

datatype outcome = Raises error | Responds string json | ReturnsNone

text \<open>
  The loop \<^verbatim>\<open>for review in filtered_reviews: review["sentiment"] = ...\<close>
  writes into the dictionaries that the list refers to. The analyser
  \<^verbatim>\<open>sia.polarity_scores\<close> is a parameter of the model.
\<close>

definition set_sentiment :: "(string \<Rightarrow> sentiment_scores) \<Rightarrow> heap \<Rightarrow> addr \<Rightarrow> heap" where
  "set_sentiment analyze_sentiment h a =
     h(a := (h a)\<lparr>sentiment := Some (analyze_sentiment (ReviewBody (h a)))\<rparr>)"

definition attach_sentiment :: "(string \<Rightarrow> sentiment_scores) \<Rightarrow> heap \<Rightarrow> addr list \<Rightarrow> heap" where
  "attach_sentiment analyze_sentiment h filtered_reviews =
     foldl (set_sentiment analyze_sentiment) h filtered_reviews"

text \<open>
  \<^verbatim>\<open>filtered_reviews.sort(key=lambda x: x["sentiment"]["compound"], reverse=True)\<close>:
  the keys are computed first (a dictionary without the key \<^verbatim>\<open>sentiment\<close> raises
  \<^verbatim>\<open>KeyError\<close>); the list is then reversed, sorted by a stable ascending sort on
  the keys, and reversed again.
\<close>

fun sort_keys :: "heap \<Rightarrow> addr list \<Rightarrow> error + real list" where
  "sort_keys h [] = Inr []"
| "sort_keys h (a # as) =
     (case sentiment (h a) of
        None \<Rightarrow> Inl KeyError
      | Some sc \<Rightarrow> (case sort_keys h as of Inl e \<Rightarrow> Inl e | Inr ks \<Rightarrow> Inr (compound sc # ks)))"

definition sort_reverse :: "heap \<Rightarrow> addr list \<Rightarrow> error + addr list" where
  "sort_reverse h filtered_reviews =
     (case sort_keys h filtered_reviews of
        Inl e \<Rightarrow> Inl e
      | Inr ks \<Rightarrow> Inr (map snd (rev (sort_key fst (rev (zip ks filtered_reviews))))))"

text \<open>
  The first half of the GET branch: the copy of the list, the location filter, the date
  filter, and the gate on the allowed locations, which comes after both filters. An
  exception here leaves the heap as it was, nothing having been written yet.
\<close>

definition filter_reviews :: "params \<Rightarrow> state \<Rightarrow> error + addr list" where
  "filter_reviews query_params s =
     (case (case query_params ''location'' of
              None \<Rightarrow> Inr (reviews s)
            | Some [] \<Rightarrow> Inl IndexError
            | Some (location # _) \<Rightarrow>
                Inr (filter (\<lambda>a. Location (heap s a) = location) (reviews s))) of
        Inl e \<Rightarrow> Inl e
      | Inr by_location \<Rightarrow>
          (case filter_by_date_range (heap s) by_location query_params of
             Inl e \<Rightarrow> Inl e
           | Inr by_date \<Rightarrow>
               Inr (case query_params ''location'' of
                      Some (location # _) \<Rightarrow>
                        if location \<notin> set allowed_locations then [] else by_date
                    | _ \<Rightarrow> by_date)))"

text \<open>
  The second half: the loop that attaches the sentiment, and the sort. The result is the
  heap after the loop and the references in response order.
\<close>

definition rank_reviews ::
  "(string \<Rightarrow> sentiment_scores) \<Rightarrow> heap \<Rightarrow> addr list \<Rightarrow> heap \<times> (error + addr list)" where
  "rank_reviews analyze_sentiment h filtered_reviews =
     (let h' = attach_sentiment analyze_sentiment h filtered_reviews
      in (h', sort_reverse h' filtered_reviews))"

definition handle_GET :: "(string \<Rightarrow> sentiment_scores) \<Rightarrow> environ \<Rightarrow> state \<Rightarrow> state \<times> outcome" where
  "handle_GET analyze_sentiment env s =
     (case filter_reviews (QUERY_STRING env) s of
        Inl e \<Rightarrow> (s, Raises e)
      | Inr filtered_reviews \<Rightarrow>
          (case rank_reviews analyze_sentiment (heap s) filtered_reviews of
             (h', Inl e) \<Rightarrow> (s\<lparr>heap := h'\<rparr>, Raises e)
           | (h', Inr ranked) \<Rightarrow>
               (s\<lparr>heap := h'\<rparr>, Responds ''200 OK'' (JsonReviews (map h' ranked)))))"

text \<open>
  A new dictionary is a new object: its address is one that the list does not hold.
\<close>

definition new_addr :: "addr list \<Rightarrow> addr" where
  "new_addr as = Suc (fold max as 0)"

text \<open>
  The POST branch. The bare \<^verbatim>\<open>except:\<close> turns a missing key (and an empty list of
  values) into the first 400 response. \<open>uuid\<close> is the value of
  \<^verbatim>\<open>str(uuid.uuid4())\<close> and \<open>now\<close> that of \<^verbatim>\<open>datetime.datetime.now()\<close>.
\<close>

definition handle_POST ::
  "(string \<Rightarrow> sentiment_scores) \<Rightarrow> string \<Rightarrow> datetime \<Rightarrow> environ \<Rightarrow> state \<Rightarrow> state \<times> outcome" where
  "handle_POST analyze_sentiment uuid now env s =
     (case (case wsgi_input env ''ReviewBody'' of
              Some (review_body # _) \<Rightarrow>
                (case wsgi_input env ''Location'' of
                   Some (location # _) \<Rightarrow> Some (review_body, location)
                 | _ \<Rightarrow> None)
            | _ \<Rightarrow> None) of
        None \<Rightarrow>
          (s, Responds ''400 Bad Request'' (JsonError ''ReviewBody and Location are required''))
      | Some (review_body, location) \<Rightarrow>
          if location \<notin> set allowed_locations
          then (s, Responds ''400 Bad Request'' (JsonError ''Invalid location provided''))
          else
            (let new_review =
                   \<lparr>ReviewId = Some uuid, ReviewBody = review_body, Location = location,
                    Timestamp = strftime_ts now,
                    sentiment = Some (analyze_sentiment review_body)\<rparr>;
                 a = new_addr (reviews s)
             in (\<lparr>reviews = reviews s @ [a], heap = (heap s)(a := new_review)\<rparr>,
                 Responds ''201 Created'' (JsonReview new_review))))"

text \<open>\<^verbatim>\<open>ReviewAnalyzerServer.__call__\<close>.\<close>

definition call ::
  "(string \<Rightarrow> sentiment_scores) \<Rightarrow> string \<Rightarrow> datetime \<Rightarrow> environ \<Rightarrow> state \<Rightarrow> state \<times> outcome" where
  "call analyze_sentiment uuid now env s =
     (if REQUEST_METHOD env = ''GET'' then handle_GET analyze_sentiment env s
      else if REQUEST_METHOD env = ''POST'' then handle_POST analyze_sentiment uuid now env s
      else (s, ReturnsNone))"

text \<open>The server handling a sequence of requests, one after the other.\<close>

fun serve ::
  "(string \<Rightarrow> sentiment_scores) \<Rightarrow> (string \<times> datetime \<times> environ) list \<Rightarrow> state \<Rightarrow> state" where
  "serve analyze_sentiment [] s = s"
| "serve analyze_sentiment ((uuid, now, env) # rest) s =
     serve analyze_sentiment rest (fst (call analyze_sentiment uuid now env s))"

section \<open>The date range of the specification\<close>

text \<open>
  The specification's reading of the date parameters, for comparison with
  \<open>filter_by_date_range\<close>: a parameter that is supplied gives its first value; a bound
  is the parsed date of a supplied parameter; a review is in range when its timestamp is
  not before the lower bound and not after the upper bound, where there is one.
\<close>

definition spec_supplied :: "params \<Rightarrow> string \<Rightarrow> string option" where
  "spec_supplied query_params k = (case query_params k of Some (v # _) \<Rightarrow> Some v | _ \<Rightarrow> None)"

definition spec_date_bound :: "params \<Rightarrow> string \<Rightarrow> datetime option" where
  "spec_date_bound query_params k =
     (case spec_supplied query_params k of None \<Rightarrow> None | Some v \<Rightarrow> strptime_date v)"

definition spec_in_range :: "datetime option \<Rightarrow> datetime option \<Rightarrow> string \<Rightarrow> bool" where
  "spec_in_range lower upper timestamp =
     (case strptime_ts timestamp of
        None \<Rightarrow> False
      | Some t \<Rightarrow>
          (case lower of None \<Rightarrow> True | Some l \<Rightarrow> l \<le> t)
          \<and> (case upper of None \<Rightarrow> True | Some u \<Rightarrow> t \<le> u))"

section \<open>Example data\<close>

text \<open>
  A stand-in for the sentiment analyser and a store of four seeded reviews, for evaluating
  the program on concrete requests. One review has a location outside the allowed list,
  and two have the same compound score.
\<close>

definition example_scores :: "string \<Rightarrow> sentiment_scores" where
  "example_scores text =
     \<lparr>neg = 0, neu = 1, pos = 0,
      compound = (if text = ''Great stay'' then 4 / 5 else if text = ''Awful'' then - (1 / 2) else 0)\<rparr>"

definition seeded :: "string \<Rightarrow> string \<Rightarrow> string \<Rightarrow> review" where
  "seeded text location timestamp =
     \<lparr>ReviewId = None, ReviewBody = text, Location = location, Timestamp = timestamp,
      sentiment = None\<rparr>"

definition example_heap :: heap where
  "example_heap =
     (\<lambda>a. seeded [] [] [])
       (0 := seeded ''Fine'' ''Denver, Colorado'' ''2024-01-01 00:00:00'',
        1 := seeded ''Great stay'' ''Nowhere'' ''2024-01-01 00:00:01'',
        2 := seeded ''Awful'' ''Denver, Colorado'' ''2023-12-31 23:59:59'',
        3 := seeded ''Okay'' ''Tucson, Arizona'' ''2023-06-15 08:30:00'')"

definition example_state :: state where
  "example_state = \<lparr>reviews = [0, 1, 2, 3], heap = example_heap\<rparr>"

definition example_GET :: "(string \<times> string list) list \<Rightarrow> environ" where
  "example_GET query = \<lparr>REQUEST_METHOD = ''GET'', QUERY_STRING = map_of query, wsgi_input = Map.empty\<rparr>"

definition example_POST :: "(string \<times> string list) list \<Rightarrow> environ" where
  "example_POST form = \<lparr>REQUEST_METHOD = ''POST'', QUERY_STRING = Map.empty, wsgi_input = map_of form\<rparr>"

definition example_review :: review where
  "example_review =
     \<lparr>ReviewId = Some ''6f1c'', ReviewBody = ''Great stay'', Location = ''Denver, Colorado'',
      Timestamp = ''2024-06-05 01:02:03'', sentiment = Some (example_scores ''Great stay'')\<rparr>"

definition example_created :: state where
  "example_created = \<lparr>reviews = [0, 1, 2, 3, 4], heap = example_heap(4 := example_review)\<rparr>"

section \<open>Auxiliary facts\<close>

lemma le_fold_max: "a \<in> set as \<Longrightarrow> a \<le> fold max as (b::nat)"
proof (induction as arbitrary: b)
  case Nil then show ?case by simp
next
  case (Cons x xs)
  have mono: "\<And>c. c \<le> fold max xs (c::nat)"
  proof -
    fix c show "c \<le> fold max xs (c::nat)"
      by (induction xs arbitrary: c) (auto intro: order_trans [OF max.cobounded2])
  qed
  show ?case
  proof (cases "a = x")
    case True
    have "x \<le> max x b" by simp
    also have "\<dots> \<le> fold max xs (max x b)" by (rule mono)
    finally show ?thesis using True by simp
  next
    case False
    with Cons.prems have "a \<in> set xs" by simp
    then show ?thesis using Cons.IH by simp
  qed
qed

lemma new_addr_fresh: "new_addr as \<notin> set as"
proof
  assume "new_addr as \<in> set as"
  then have "new_addr as \<le> fold max as 0" by (rule le_fold_max)
  then show False by (simp add: new_addr_def)
qed

lemma set_sentiment_apply:
  "set_sentiment f h x a = (if a = x then (h a)\<lparr>sentiment := Some (f (ReviewBody (h a)))\<rparr> else h a)"
  by (simp add: set_sentiment_def)

lemma attach_sentiment_apply:
  "attach_sentiment f h rs a =
     (if a \<in> set rs then (h a)\<lparr>sentiment := Some (f (ReviewBody (h a)))\<rparr> else h a)"
  unfolding attach_sentiment_def
proof (induction rs arbitrary: h)
  case Nil then show ?case by simp
next
  case (Cons x xs)
  have "foldl (set_sentiment f) (set_sentiment f h x) xs a =
          (if a \<in> set xs
           then (set_sentiment f h x a)\<lparr>sentiment := Some (f (ReviewBody (set_sentiment f h x a)))\<rparr>
           else set_sentiment f h x a)"
    by (rule Cons.IH)
  also have "\<dots> = (if a \<in> set (x # xs) then (h a)\<lparr>sentiment := Some (f (ReviewBody (h a)))\<rparr> else h a)"
    by (simp add: set_sentiment_apply)
  finally show ?case by simp
qed

lemma sort_keys_Inr:
  "\<forall>a\<in>set rs. sentiment (h a) = Some (sc a) \<Longrightarrow> sort_keys h rs = Inr (map (\<lambda>a. compound (sc a)) rs)"
  by (induction rs) auto

lemma insort_key_fst_map:
  "insort_key fst (k x, x) (map (\<lambda>a. (k a, a)) ys) = map (\<lambda>a. (k a, a)) (insort_key k x ys)"
  by (induction ys) auto

lemma sort_key_fst_map:
  "sort_key fst (map (\<lambda>a. (k a, a)) xs) = map (\<lambda>a. (k a, a)) (sort_key k xs)"
  by (induction xs) (auto simp: insort_key_fst_map)

lemma zip_map_self: "zip (map k xs) xs = map (\<lambda>a. (k a, a)) xs"
  by (induction xs) auto

lemma sort_reverse_Inr:
  assumes "\<forall>a\<in>set rs. sentiment (h a) = Some (sc a)"
  shows "sort_reverse h rs = Inr (rev (sort_key (\<lambda>a. compound (sc a)) (rev rs)))"
proof -
  let ?k = "\<lambda>a. compound (sc a)"
  have "rev (zip (map ?k rs) rs) = map (\<lambda>a. (?k a, a)) (rev rs)"
    by (simp add: zip_map_self rev_map)
  then have "sort_key fst (rev (zip (map ?k rs) rs)) = map (\<lambda>a. (?k a, a)) (sort_key ?k (rev rs))"
    by (simp only: sort_key_fst_map)
  then have "map snd (rev (sort_key fst (rev (zip (map ?k rs) rs)))) = rev (sort_key ?k (rev rs))"
    by (simp add: rev_map [symmetric] o_def)
  then show ?thesis
    using sort_keys_Inr [OF assms] by (simp add: sort_reverse_def)
qed

lemma filter_timestamps_Inr:
  "\<forall>a\<in>set rs. strptime_ts (Timestamp (h a)) \<noteq> None \<Longrightarrow>
   filter_timestamps keep h rs =
     Inr (filter (\<lambda>a. case strptime_ts (Timestamp (h a)) of None \<Rightarrow> False | Some t \<Rightarrow> keep t) rs)"
  by (induction rs) auto

lemma first_match_in: "first_match ms = Some t \<Longrightarrow> (t, []) \<in> set ms"
  by (auto simp: first_match_def split: list.splits if_splits)

lemma strptime_date_midnight:
  "strptime_date v = Some t \<Longrightarrow> snd (snd (snd t)) = (0, 0, 0)"
  by (auto simp: strptime_date_def dest!: first_match_in)

lemma rank_reviews_Inr:
  "rank_reviews score h rs =
     (attach_sentiment score h rs,
      Inr (rev (sort_key (\<lambda>a. compound (score (ReviewBody (h a)))) (rev rs))))"
proof -
  have "\<forall>a\<in>set rs. sentiment (attach_sentiment score h rs a) = Some (score (ReviewBody (h a)))"
    by (simp add: attach_sentiment_apply)
  then have "sort_reverse (attach_sentiment score h rs) rs =
               Inr (rev (sort_key (\<lambda>a. compound (score (ReviewBody (h a)))) (rev rs)))"
    by (rule sort_reverse_Inr)
  then show ?thesis by (simp add: rank_reviews_def Let_def)
qed

lemma filter_by_date_range_returns:
  assumes "\<forall>a\<in>set rs. strptime_ts (Timestamp (h a)) \<noteq> None"
      and "qp ''start_date'' \<noteq> Some []" "qp ''end_date'' \<noteq> Some []"
  shows "\<exists>ks. filter_by_date_range h rs qp = Inr ks"
  using assms(2,3) unfolding filter_by_date_range_def
  by (auto simp: filter_timestamps_Inr [OF assms(1)] split: option.splits list.splits)

lemma no_dates_returns_input:
  "qp ''start_date'' = None \<Longrightarrow> qp ''end_date'' = None \<Longrightarrow> filter_by_date_range h rs qp = Inr rs"
  by (simp add: filter_by_date_range_def)

lemma handle_GET_reviews: "reviews (fst (handle_GET score env s)) = reviews s"
  by (simp add: handle_GET_def rank_reviews_Inr split: sum.splits)

lemma handle_GET_body: "ReviewBody (heap (fst (handle_GET score env s)) a) = ReviewBody (heap s a)"
  by (simp add: handle_GET_def rank_reviews_Inr attach_sentiment_apply split: sum.splits)

lemma handle_GET_fields:
  "ReviewId (heap (fst (handle_GET score env s)) a) = ReviewId (heap s a)
   \<and> Location (heap (fst (handle_GET score env s)) a) = Location (heap s a)
   \<and> Timestamp (heap (fst (handle_GET score env s)) a) = Timestamp (heap s a)"
  by (simp add: handle_GET_def rank_reviews_Inr attach_sentiment_apply split: sum.splits)

lemma handle_POST_keeps:
  assumes "a \<in> set (reviews s)"
  shows "a \<in> set (reviews (fst (handle_POST score uuid now env s)))
         \<and> heap (fst (handle_POST score uuid now env s)) a = heap s a"
proof -
  have "new_addr (reviews s) \<noteq> a"
    using assms new_addr_fresh [of "reviews s"] by auto
  then show ?thesis
    using assms
    by (auto simp: handle_POST_def Let_def split: option.splits list.splits)
qed

lemma call_keeps:
  assumes "a \<in> set (reviews s)"
  shows "a \<in> set (reviews (fst (call score uuid now env s)))
         \<and> ReviewBody (heap (fst (call score uuid now env s)) a) = ReviewBody (heap s a)"
  using assms handle_POST_keeps [OF assms, of score uuid now env]
  by (simp add: call_def handle_GET_reviews handle_GET_body)

lemma serve_keeps:
  "a \<in> set (reviews s) \<Longrightarrow>
   a \<in> set (reviews (serve score reqs s))
   \<and> ReviewBody (heap (serve score reqs s) a) = ReviewBody (heap s a)"
proof (induction reqs arbitrary: s)
  case Nil
  then show ?case by simp
next
  case (Cons req reqs)
  obtain uuid now env where req: "req = (uuid, now, env)" by (cases req) auto
  let ?s = "fst (call score uuid now env s)"
  from call_keeps [OF Cons.prems, of score uuid now env]
  have 1: "a \<in> set (reviews ?s)" and 2: "ReviewBody (heap ?s a) = ReviewBody (heap s a)"
    by simp_all
  from Cons.IH [OF 1] 2 show ?case by (simp add: req)
qed

lemma created_201:
  assumes "call score uuid now env s = (s1, Responds ''201 Created'' (JsonReview r))"
  shows "\<exists>rb loc. r = \<lparr>ReviewId = Some uuid, ReviewBody = rb, Location = loc,
                         Timestamp = strftime_ts now, sentiment = Some (score rb)\<rparr>
           \<and> s1 = \<lparr>reviews = reviews s @ [new_addr (reviews s)],
                   heap = (heap s)(new_addr (reviews s) := r)\<rparr>"
  using assms
  by (auto simp: call_def handle_POST_def handle_GET_def rank_reviews_Inr Let_def
           split: option.splits list.splits if_splits sum.splits)

section \<open>Timestamps written by the server parse back\<close>

lemma digit_of_nth: "j < 10 \<Longrightarrow> digit_of (''0123456789'' ! j) = Some j"
proof -
  have "\<forall>j\<in>{..<10::nat}. digit_of (''0123456789'' ! j) = Some j"
    by (simp add: lessThan_nat_numeral lessThan_Suc digit_of_def)
  then show "j < 10 \<Longrightarrow> digit_of (''0123456789'' ! j) = Some j" by simp
qed

lemma digit_of_digit_char: "digit_of (digit_char k) = Some (k mod 10)"
  by (simp add: digit_char_def digit_of_nth)

lemma re_digit_digit_char:
  "re_digit lo hi (digit_char k # r) = (if lo \<le> k mod 10 \<and> k mod 10 \<le> hi then [(k mod 10, r)] else [])"
  by (simp add: digit_of_digit_char)

lemma mod10_le9: "(k::nat) mod 10 \<le> 9"
proof -
  have "k mod 10 < 10" by simp
  then show ?thesis by linarith
qed

lemma re_two_digit_char:
  "re_two (re_digit l1 h1) (re_digit l2 h2) (digit_char a # digit_char b # r) =
     (if l1 \<le> a mod 10 \<and> a mod 10 \<le> h1 \<and> l2 \<le> b mod 10 \<and> b mod 10 \<le> h2
      then [(10 * (a mod 10) + b mod 10, r)] else [])"
  by (auto simp add: re_two_def re_digit_digit_char simp del: re_digit.simps)

lemma digit_char_not:
  "digit_of c = None \<Longrightarrow> digit_char k \<noteq> c"
  using digit_of_digit_char [of k] by auto

lemma is_space_not_digit: "is_space c \<Longrightarrow> digit_of c = None"
  by (auto simp: is_space_def digit_of_def)

lemma digit_char_not_space: "\<not> is_space (digit_char k)"
  using is_space_not_digit [of "digit_char k"] by (auto simp: digit_of_digit_char)

lemma digit_char_seps:
  "digit_char k \<noteq> CHR ''-''" "digit_char k \<noteq> CHR '':''" "digit_char k \<noteq> CHR '' ''"
  by (rule digit_char_not, simp add: digit_of_def)+

lemma four_digits:
  "a' = a \<Longrightarrow> p = 10 * a + b \<Longrightarrow> q = 10 * p + c \<Longrightarrow> y = 10 * q + d \<Longrightarrow>
   y = 10 * (10 * (10 * a' + b) + c) + (d::nat)"
  by simp

lemma re_Y_pad4: "y \<le> 9999 \<Longrightarrow> re_Y (pad4 y @ r) = [(y, r)]"
proof -
  assume y: "y \<le> 9999"
  have a: "y div 1000 mod 10 = y div 1000" using y by simp
  have d3: "y div 1000 = y div 100 div 10"
    using div_mult2_eq [of y 100 10] by simp
  have d2: "y div 100 = y div 10 div 10"
    using div_mult2_eq [of y 10 10] by simp
  have f1: "y div 100 = 10 * (y div 1000) + y div 100 mod 10"
    unfolding d3 by simp
  have f2: "y div 10 = 10 * (y div 100) + y div 10 mod 10"
    unfolding d2 by simp
  have f3: "y = 10 * (y div 10) + y mod 10" by simp
  have v: "10 * (10 * (10 * (y div 1000 mod 10) + y div 100 mod 10) + y div 10 mod 10) + y mod 10 = y"
    by (rule four_digits [OF a f1 f2 f3, symmetric])
  have "re_Y (pad4 y @ r) = [(10 * (10 * (10 * (y div 1000 mod 10) + y div 100 mod 10) + y div 10 mod 10) + y mod 10, r)]"
    by (simp add: re_Y_def pad4_def re_two_def re_digit_digit_char mod10_le9 del: re_digit.simps)
  then show ?thesis by (simp only: v)
qed

lemma digit_char_mod: "digit_char (k mod 10) = digit_char k"
  by (simp add: digit_char_def)

lemma pad2_digits: "pad2 n = [digit_char (n div 10), digit_char (n mod 10)]"
  by (simp add: pad2_def digit_char_mod)

lemmas re_digits = re_two_digit_char re_digit_digit_char

lemma re_m_digits:
  assumes "b \<le> 9" "1 \<le> 10 * a + b" "10 * a + b \<le> 12"
  shows "re_m (digit_char a # digit_char b # r) =
           (10 * a + b, r) # (if 1 \<le> a then [(a, digit_char b # r)] else [])"
proof -
  have "a \<le> 1" using assms by linarith
  then have ab: "a mod 10 = a" "b mod 10 = b" using assms by simp_all
  show ?thesis
    using assms \<open>a \<le> 1\<close>
    by (auto simp add: re_m_def re_digits ab simp del: re_digit.simps)
qed

lemma re_d_digits:
  assumes "b \<le> 9" "1 \<le> 10 * a + b" "10 * a + b \<le> 31"
  shows "re_d (digit_char a # digit_char b # r) =
           (10 * a + b, r) # (if 1 \<le> a then [(a, digit_char b # r)] else [])"
proof -
  have "a \<le> 3" using assms by linarith
  then have ab: "a mod 10 = a" "b mod 10 = b" using assms by simp_all
  show ?thesis
    using assms \<open>a \<le> 3\<close>
    by (auto simp add: re_d_def re_digits ab digit_char_seps simp del: re_digit.simps)
qed

lemma re_H_digits:
  assumes "b \<le> 9" "10 * a + b \<le> 23"
  shows "re_H (digit_char a # digit_char b # r) = [(10 * a + b, r), (a, digit_char b # r)]"
proof -
  have "a \<le> 2" using assms by linarith
  then have ab: "a mod 10 = a" "b mod 10 = b" using assms by simp_all
  show ?thesis
    using assms \<open>a \<le> 2\<close>
    by (auto simp add: re_H_def re_digits ab simp del: re_digit.simps)
qed

lemma re_M_digits:
  assumes "b \<le> 9" "10 * a + b \<le> 59"
  shows "re_M (digit_char a # digit_char b # r) = [(10 * a + b, r), (a, digit_char b # r)]"
proof -
  have "a \<le> 5" using assms by linarith
  then have ab: "a mod 10 = a" "b mod 10 = b" using assms by simp_all
  show ?thesis
    using assms \<open>a \<le> 5\<close>
    by (auto simp add: re_M_def re_digits ab simp del: re_digit.simps)
qed

lemma re_S_digits:
  assumes "b \<le> 9" "10 * a + b \<le> 59"
  shows "re_S (digit_char a # digit_char b # r) = [(10 * a + b, r), (a, digit_char b # r)]"
proof -
  have "a \<le> 5" using assms by linarith
  then have ab: "a mod 10 = a" "b mod 10 = b" using assms by simp_all
  show ?thesis
    using assms \<open>a \<le> 5\<close>
    by (auto simp add: re_S_def re_digits ab simp del: re_digit.simps)
qed

lemma tens_ge: "(Suc 0 \<le> n div 10) = (10 \<le> (n::nat))"
  by linarith

lemma is_space_blank: "is_space (CHR '' '')"
  by (simp add: is_space_def)

lemma re_m_pad2:
  "1 \<le> m \<Longrightarrow> m \<le> 12 \<Longrightarrow>
   re_m (pad2 m @ r) = (m, r) # (if 10 \<le> m then [(m div 10, digit_char (m mod 10) # r)] else [])"
  using re_m_digits [of "m mod 10" "m div 10" r] by (simp add: pad2_digits mod10_le9 tens_ge)

lemma re_d_pad2:
  "1 \<le> d \<Longrightarrow> d \<le> 31 \<Longrightarrow>
   re_d (pad2 d @ r) = (d, r) # (if 10 \<le> d then [(d div 10, digit_char (d mod 10) # r)] else [])"
  using re_d_digits [of "d mod 10" "d div 10" r] by (simp add: pad2_digits mod10_le9 tens_ge)

lemma re_H_pad2:
  "H \<le> 23 \<Longrightarrow> re_H (pad2 H @ r) = [(H, r), (H div 10, digit_char (H mod 10) # r)]"
  using re_H_digits [of "H mod 10" "H div 10" r] by (simp add: pad2_digits mod10_le9)

lemma re_M_pad2:
  "M \<le> 59 \<Longrightarrow> re_M (pad2 M @ r) = [(M, r), (M div 10, digit_char (M mod 10) # r)]"
  using re_M_digits [of "M mod 10" "M div 10" r] by (simp add: pad2_digits mod10_le9)

lemma re_S_pad2:
  "S \<le> 59 \<Longrightarrow> re_S (pad2 S) = [(S, []), (S div 10, [digit_char (S mod 10)])]"
  using re_S_digits [of "S mod 10" "S div 10" "[]"] by (simp add: pad2_digits mod10_le9)

lemma days_in_month_le: "days_in_month y m \<le> 31"
  by (simp add: days_in_month_def)

lemma re_spaces1_pad2: "re_spaces1 (CHR '' '' # pad2 n @ r) = [pad2 n @ r]"
  by (simp add: re_spaces1_def is_space_blank pad2_def digit_char_not_space)

lemma re_spaces1_digit: "re_spaces1 (digit_char k # r) = []"
  by (simp add: re_spaces1_def digit_char_not_space)

lemma strptime_strftime:
  assumes "valid_datetime (y, m, d, H, M, S)"
  shows "strptime_ts (strftime_ts (y, m, d, H, M, S)) = Some (y, m, d, H, M, S)"
proof -
  from assms have b: "y \<le> 9999" "1 \<le> m" "m \<le> 12" "1 \<le> d" "d \<le> 31" "H \<le> 23" "M \<le> 59" "S \<le> 59"
    using days_in_month_le [of y m] by (auto simp: valid_datetime_def)
  have "[((y, m, d, H, M, S), r11).
          (y, r1) \<leftarrow> re_Y (strftime_ts (y, m, d, H, M, S)), r2 \<leftarrow> re_char (CHR ''-'') r1,
          (m, r3) \<leftarrow> re_m r2, r4 \<leftarrow> re_char (CHR ''-'') r3, (d, r5) \<leftarrow> re_d r4,
          r6 \<leftarrow> re_spaces1 r5, (H, r7) \<leftarrow> re_H r6, r8 \<leftarrow> re_char (CHR '':'') r7,
          (M, r9) \<leftarrow> re_M r8, r10 \<leftarrow> re_char (CHR '':'') r9, (S, r11) \<leftarrow> re_S r10]
        = [((y, m, d, H, M, S), []), ((y, m, d, H, M, S div 10), [digit_char (S mod 10)])]"
    using b
    by (simp add: strftime_ts_def re_Y_pad4 re_m_pad2 re_d_pad2 re_H_pad2 re_M_pad2 re_S_pad2
          re_spaces1_pad2 re_spaces1_digit digit_char_seps)
  then show ?thesis
    using assms by (simp add: strptime_ts_def first_match_def)
qed

section \<open>Facts about the example data\<close>

lemma example_timestamps:
  "strptime_ts ''2024-01-01 00:00:00'' = Some (2024, 1, 1, 0, 0, 0)"
  "strptime_ts ''2024-01-01 00:00:01'' = Some (2024, 1, 1, 0, 0, 1)"
  "strptime_ts ''2023-12-31 23:59:59'' = Some (2023, 12, 31, 23, 59, 59)"
  "strptime_ts ''2023-06-15 08:30:00'' = Some (2023, 6, 15, 8, 30, 0)"
  by code_simp+

lemma example_dates:
  "strptime_date ''2024-13-01'' = None"
  "strptime_date ''2023-12-31'' = Some (2023, 12, 31, 0, 0, 0)"
  "strptime_date ''2024-01-01'' = Some (2024, 1, 1, 0, 0, 0)"
  by code_simp+

lemma example_heap_simps:
  "example_heap 0 = seeded ''Fine'' ''Denver, Colorado'' ''2024-01-01 00:00:00''"
  "example_heap (Suc 0) = seeded ''Great stay'' ''Nowhere'' ''2024-01-01 00:00:01''"
  "example_heap 2 = seeded ''Awful'' ''Denver, Colorado'' ''2023-12-31 23:59:59''"
  "example_heap 3 = seeded ''Okay'' ''Tucson, Arizona'' ''2023-06-15 08:30:00''"
  by (simp_all add: example_heap_def)

lemma example_timestamps_parse:
  "\<forall>a\<in>set [0, 1, 2, 3]. strptime_ts (Timestamp (example_heap a)) \<noteq> None"
  by (simp add: example_heap_simps seeded_def example_timestamps)

lemma example_locations:
  "''Nowhere'' \<notin> set allowed_locations"
  "''denver, colorado'' \<notin> set allowed_locations"
  "''Denver, Colorado'' \<in> set allowed_locations"
  by (simp_all add: allowed_locations_def)

lemma example_strftime: "strftime_ts (2024, 6, 5, 1, 2, 3) = ''2024-06-05 01:02:03''"
  by code_simp

lemma example_get_all:
  "snd (call example_scores [] (2024, 6, 5, 1, 2, 3) (example_GET []) example_state)
     = Responds ''200 OK'' (JsonReviews
         [(seeded ''Great stay'' ''Nowhere'' ''2024-01-01 00:00:01'')
            \<lparr>sentiment := Some (example_scores ''Great stay'')\<rparr>,
          (seeded ''Fine'' ''Denver, Colorado'' ''2024-01-01 00:00:00'')
            \<lparr>sentiment := Some (example_scores ''Fine'')\<rparr>,
          (seeded ''Okay'' ''Tucson, Arizona'' ''2023-06-15 08:30:00'')
            \<lparr>sentiment := Some (example_scores ''Okay'')\<rparr>,
          (seeded ''Awful'' ''Denver, Colorado'' ''2023-12-31 23:59:59'')
            \<lparr>sentiment := Some (example_scores ''Awful'')\<rparr>])"
  by (simp add: call_def example_GET_def handle_GET_def filter_reviews_def
        no_dates_returns_input example_state_def rank_reviews_Inr attach_sentiment_apply
        example_heap_simps seeded_def example_scores_def)

lemma example_rejected:
  "snd (call example_scores [] (2024, 6, 5, 1, 2, 3)
          (example_POST [(''ReviewBody'', [''Great stay'']), (''Location'', [''Nowhere''])])
          example_state)
     = Responds ''400 Bad Request'' (JsonError ''Invalid location provided'')"
  by (simp add: call_def example_POST_def handle_POST_def example_locations)

lemma example_post:
  "call example_scores ''6f1c'' (2024, 6, 5, 1, 2, 3)
     (example_POST [(''ReviewBody'', [''Great stay'']), (''Location'', [''Denver, Colorado''])])
     example_state
   = (example_created, Responds ''201 Created'' (JsonReview example_review))"
proof -
  let ?post = "example_POST [(''ReviewBody'', [''Great stay'']), (''Location'', [''Denver, Colorado''])]"
  have n: "new_addr (reviews example_state) = 4"
    by (simp add: new_addr_def example_state_def)
  have "call example_scores ''6f1c'' (2024, 6, 5, 1, 2, 3) ?post example_state
        = (\<lparr>reviews = reviews example_state @ [new_addr (reviews example_state)],
            heap = (heap example_state)(new_addr (reviews example_state) :=
              \<lparr>ReviewId = Some ''6f1c'', ReviewBody = ''Great stay'',
               Location = ''Denver, Colorado'', Timestamp = strftime_ts (2024, 6, 5, 1, 2, 3),
               sentiment = Some (example_scores ''Great stay'')\<rparr>)\<rparr>,
           Responds ''201 Created'' (JsonReview
              \<lparr>ReviewId = Some ''6f1c'', ReviewBody = ''Great stay'',
               Location = ''Denver, Colorado'', Timestamp = strftime_ts (2024, 6, 5, 1, 2, 3),
               sentiment = Some (example_scores ''Great stay'')\<rparr>))"
    by (simp add: call_def example_POST_def handle_POST_def example_locations Let_def)
  also have "\<dots> = (example_created, Responds ''201 Created'' (JsonReview example_review))"
    unfolding n example_strftime
    by (simp add: example_state_def example_created_def example_review_def)
  finally show ?thesis .
qed

lemma example_created_heap:
  "heap example_created 0 = seeded ''Fine'' ''Denver, Colorado'' ''2024-01-01 00:00:00''"
  "heap example_created (Suc 0) = seeded ''Great stay'' ''Nowhere'' ''2024-01-01 00:00:01''"
  "heap example_created 2 = seeded ''Awful'' ''Denver, Colorado'' ''2023-12-31 23:59:59''"
  "heap example_created 3 = seeded ''Okay'' ''Tucson, Arizona'' ''2023-06-15 08:30:00''"
  "heap example_created 4 = example_review"
  "reviews example_created = [0, 1, 2, 3, 4]"
  by (simp_all add: example_created_def example_heap_simps)

lemma example_later:
  "serve example_scores [([], (2024, 6, 5, 1, 2, 4), example_GET [])] example_created
     = example_created\<lparr>heap := attach_sentiment example_scores (heap example_created) [0, 1, 2, 3, 4]\<rparr>"
  by (simp add: call_def example_GET_def handle_GET_def filter_reviews_def
        no_dates_returns_input rank_reviews_Inr example_created_heap)

lemma example_filtered:
  "filter_reviews (QUERY_STRING (example_GET [(''location'', [''Denver, Colorado''])]))
     (serve example_scores [([], (2024, 6, 5, 1, 2, 4), example_GET [])] example_created)
   = Inr [0, 2, 4]"
  unfolding example_later
  by (simp add: example_GET_def filter_reviews_def no_dates_returns_input
        example_locations attach_sentiment_apply example_created_heap seeded_def
        example_review_def)

lemma example_ranked:
  "snd (rank_reviews example_scores
     (heap (serve example_scores [([], (2024, 6, 5, 1, 2, 4), example_GET [])] example_created))
     [0, 2, 4]) = Inr [4, 0, 2]"
  unfolding example_later
  by (simp add: rank_reviews_Inr attach_sentiment_apply example_created_heap
        seeded_def example_review_def example_scores_def)

section \<open>Malformed date parameters\<close>

text \<open>
  C1, as the specification states it, fails: with a \<^verbatim>\<open>start_date\<close> that does not
  parse and an \<^verbatim>\<open>end_date\<close> that does, the date filter returns all four reviews of
  the example, whereas with the \<^verbatim>\<open>start_date\<close> absent the same
  \<^verbatim>\<open>end_date\<close> keeps only one of them.
\<close>

theorem malformed_start_date_counterexample:
  "filter_by_date_range example_heap [0, 1, 2, 3]
     (map_of [(''start_date'', [''2024-13-01'']), (''end_date'', [''2023-12-31''])])
     = Inr [0, 1, 2, 3]
   \<and> filter_by_date_range example_heap [0, 1, 2, 3]
     (map_of [(''end_date'', [''2023-12-31''])]) = Inr [3]"
  by code_simp

text \<open>
  C1, amended: when a supplied \<^verbatim>\<open>start_date\<close> does not parse, or a supplied
  \<^verbatim>\<open>end_date\<close> does not parse (the \<^verbatim>\<open>start_date\<close> being absent or
  not), the date filter applies no bound at all and returns the list it was given.
\<close>

theorem malformed_date_returns_input:
  assumes "qp ''start_date'' \<noteq> Some []"
      and "(\<exists>v vs. qp ''start_date'' = Some (v # vs) \<and> strptime_date v = None)
           \<or> (\<exists>w ws. qp ''end_date'' = Some (w # ws) \<and> strptime_date w = None)"
  shows "filter_by_date_range h rs qp = Inr rs"
  using assms unfolding filter_by_date_range_def
  by (auto split: option.splits list.splits)

theorem malformed_date_returns_input_witness:
  "strptime_date ''2024-13-01'' = None
   \<and> strptime_date ''2023-12-31'' = Some (2023, 12, 31, 0, 0, 0)
   \<and> filter_by_date_range example_heap [0, 1, 2, 3]
       (map_of [(''start_date'', [''2024-13-01'']), (''end_date'', [''2023-12-31''])])
       = Inr [0, 1, 2, 3]"
proof -
  have "filter_by_date_range example_heap [0, 1, 2, 3]
          (map_of [(''start_date'', [''2024-13-01'']), (''end_date'', [''2023-12-31''])])
          = Inr [0, 1, 2, 3]"
    by (rule malformed_date_returns_input) (simp_all add: example_dates)
  then show ?thesis by (simp add: example_dates)
qed

section \<open>What a query writes into the store\<close>

text \<open>
  C2: a GET request should leave every stored record as it was, the handler working on a
  copy of the list (\<^verbatim>\<open>reviews.copy()  # Copy to avoid modifying original data\<close>).
  The copy is shallow: it shares the dictionaries with the store, and the loop that attaches
  the sentiment writes into them. On the example store a GET with no parameter gives the
  first stored review, which had no \<^verbatim>\<open>sentiment\<close> key, such a key. The order of the
  list and the other fields stay as they were (\<open>handle_GET_reviews\<close>,
  \<open>handle_GET_fields\<close>, \<open>handle_GET_body\<close>).
\<close>

theorem get_writes_sentiment_into_store:
  "sentiment (heap example_state 0) = None
   \<and> sentiment (heap (fst (call example_scores [] (2024, 6, 5, 1, 2, 3) (example_GET [])
                            example_state)) 0)
       = Some (example_scores ''Fine'')"
  by (simp add: call_def example_GET_def handle_GET_def filter_reviews_def
        no_dates_returns_input example_state_def rank_reviews_Inr attach_sentiment_apply
        example_heap_simps seeded_def)

section \<open>Unknown locations\<close>

text \<open>
  C3: a GET request whose \<^verbatim>\<open>location\<close> is not in the list of allowed locations
  is answered \<^verbatim>\<open>200 OK\<close> with the empty list, whatever the store holds, and the
  store is left as it was. The timestamps of the stored reviews are assumed to parse, as the
  data model of the specification requires (the date filter runs before the gate and raises
  on a timestamp that does not parse), and the lists of values to be non-empty, as
  \<^verbatim>\<open>parse_qs\<close> builds them.
\<close>

theorem unknown_location_empty:
  assumes get: "REQUEST_METHOD env = ''GET''"
      and loc: "QUERY_STRING env ''location'' = Some (loc # vs)"
      and unknown: "loc \<notin> set allowed_locations"
      and ts: "\<forall>a\<in>set (reviews s). strptime_ts (Timestamp (heap s a)) \<noteq> None"
      and ne: "QUERY_STRING env ''start_date'' \<noteq> Some []" "QUERY_STRING env ''end_date'' \<noteq> Some []"
  shows "call score uuid now env s = (s, Responds ''200 OK'' (JsonReviews []))"
proof -
  let ?by_location = "filter (\<lambda>a. Location (heap s a) = loc) (reviews s)"
  have "\<forall>a\<in>set ?by_location. strptime_ts (Timestamp (heap s a)) \<noteq> None"
    using ts by simp
  then obtain ks where "filter_by_date_range (heap s) ?by_location (QUERY_STRING env) = Inr ks"
    using filter_by_date_range_returns [OF _ ne] by blast
  then have "filter_reviews (QUERY_STRING env) s = Inr []"
    using loc unknown by (simp add: filter_reviews_def)
  moreover have "rank_reviews score (heap s) [] = (heap s, Inr [])"
    by (simp add: rank_reviews_Inr attach_sentiment_def)
  ultimately show ?thesis
    using get by (simp add: call_def handle_GET_def)
qed

theorem unknown_location_empty_witness:
  "Location (heap example_state 1) = ''Nowhere''
   \<and> ''Nowhere'' \<notin> set allowed_locations
   \<and> call example_scores [] (2024, 6, 5, 1, 2, 3) (example_GET [(''location'', [''Nowhere''])])
        example_state
       = (example_state, Responds ''200 OK'' (JsonReviews []))"
proof -
  have "call example_scores [] (2024, 6, 5, 1, 2, 3) (example_GET [(''location'', [''Nowhere''])])
          example_state
        = (example_state, Responds ''200 OK'' (JsonReviews []))"
    by (rule unknown_location_empty [where loc = "''Nowhere''" and vs = "[]"])
       (simp_all add: example_GET_def example_locations example_state_def
          example_timestamps_parse)
  then show ?thesis
    by (simp add: example_locations example_state_def example_heap_simps seeded_def)
qed

section \<open>The date range\<close>

text \<open>
  C4: when every date parameter that is supplied parses, the date filter keeps exactly the
  reviews whose timestamp is not before the start bound and not after the end bound
  (each bound only when its parameter is supplied), and both bounds are at 0:00:00 of
  their day, the end bound too. The timestamps of the reviews are assumed to parse, as
  the data model of the specification requires, and the lists of values to be non-empty,
  as \<^verbatim>\<open>parse_qs\<close> builds them.
\<close>

theorem date_filter_inclusive_midnight:
  assumes ts: "\<forall>a\<in>set rs. strptime_ts (Timestamp (h a)) \<noteq> None"
      and ne: "qp ''start_date'' \<noteq> Some []" "qp ''end_date'' \<noteq> Some []"
      and ps: "\<forall>v. spec_supplied qp ''start_date'' = Some v \<longrightarrow> strptime_date v \<noteq> None"
      and pe: "\<forall>v. spec_supplied qp ''end_date'' = Some v \<longrightarrow> strptime_date v \<noteq> None"
  shows "filter_by_date_range h rs qp =
           Inr (filter (\<lambda>a. spec_in_range (spec_date_bound qp ''start_date'')
                              (spec_date_bound qp ''end_date'') (Timestamp (h a))) rs)
         \<and> (\<forall>t. spec_date_bound qp ''start_date'' = Some t \<or> spec_date_bound qp ''end_date'' = Some t
                \<longrightarrow> snd (snd (snd t)) = (0, 0, 0))"
proof
  have all: "filter (\<lambda>a. case strptime_ts (Timestamp (h a)) of None \<Rightarrow> False | Some t \<Rightarrow> True) rs = rs"
    using ts by (auto intro!: filter_True split: option.splits)
  show "filter_by_date_range h rs qp =
           Inr (filter (\<lambda>a. spec_in_range (spec_date_bound qp ''start_date'')
                              (spec_date_bound qp ''end_date'') (Timestamp (h a))) rs)"
    using ne ps pe all
    unfolding filter_by_date_range_def spec_in_range_def spec_date_bound_def spec_supplied_def
    by (auto simp: filter_timestamps_Inr [OF ts] split: option.splits list.splits
             intro!: filter_cong)
next
  show "\<forall>t. spec_date_bound qp ''start_date'' = Some t \<or> spec_date_bound qp ''end_date'' = Some t
                \<longrightarrow> snd (snd (snd t)) = (0, 0, 0)"
    by (auto simp: spec_date_bound_def split: option.splits dest: strptime_date_midnight)
qed

theorem date_filter_inclusive_midnight_witness:
  "spec_date_bound (map_of [(''start_date'', [''2023-12-31'']), (''end_date'', [''2024-01-01''])])
     ''start_date'' = Some (2023, 12, 31, 0, 0, 0)
   \<and> spec_date_bound (map_of [(''start_date'', [''2023-12-31'']), (''end_date'', [''2024-01-01''])])
     ''end_date'' = Some (2024, 1, 1, 0, 0, 0)
   \<and> filter_by_date_range example_heap [0, 1, 2, 3]
       (map_of [(''start_date'', [''2023-12-31'']), (''end_date'', [''2024-01-01''])])
       = Inr [0, 2]"
proof -
  let ?qp = "map_of [(''start_date'', [''2023-12-31'']), (''end_date'', [''2024-01-01''])]"
  have lo: "spec_date_bound ?qp ''start_date'' = Some (2023, 12, 31, 0, 0, 0)"
    by (simp add: spec_date_bound_def spec_supplied_def example_dates)
  have hi: "spec_date_bound ?qp ''end_date'' = Some (2024, 1, 1, 0, 0, 0)"
    by (simp add: spec_date_bound_def spec_supplied_def example_dates)
  have "filter_by_date_range example_heap [0, 1, 2, 3] ?qp =
          Inr (filter (\<lambda>a. spec_in_range (spec_date_bound ?qp ''start_date'')
                             (spec_date_bound ?qp ''end_date'') (Timestamp (example_heap a)))
                 [0, 1, 2, 3])"
    by (rule date_filter_inclusive_midnight [THEN conjunct1])
       (simp_all add: example_timestamps_parse spec_supplied_def example_dates)
  also have "\<dots> = Inr (filter (\<lambda>a. spec_in_range (Some (2023, 12, 31, 0, 0, 0))
                             (Some (2024, 1, 1, 0, 0, 0)) (Timestamp (example_heap a)))
                 [0, 1, 2, 3])"
    by (simp only: lo hi)
  also have "\<dots> = Inr [0, 2]"
    by (simp add: spec_in_range_def example_heap_simps seeded_def example_timestamps)
  finally show ?thesis using lo hi by simp
qed

section \<open>Ranking\<close>

text \<open>
  C5: the ranking step attaches to every review of the filtered list the score of its
  body and returns the same reviews ordered by compound score, highest first; reviews with
  the same compound score keep the order they had in the filtered list.
\<close>

theorem ranking_stable_descending:
  "\<exists>ranked. rank_reviews score h rs = (attach_sentiment score h rs, Inr ranked)
      \<and> (\<forall>a\<in>set rs. sentiment (attach_sentiment score h rs a) = Some (score (ReviewBody (h a))))
      \<and> mset ranked = mset rs
      \<and> sorted_wrt (\<lambda>x y. x \<ge> y) (map (\<lambda>a. compound (score (ReviewBody (h a)))) ranked)
      \<and> (\<forall>k. filter (\<lambda>a. compound (score (ReviewBody (h a))) = k) ranked
             = filter (\<lambda>a. compound (score (ReviewBody (h a))) = k) rs)"
proof -
  let ?h' = "attach_sentiment score h rs"
  let ?key = "\<lambda>a. compound (score (ReviewBody (h a)))"
  let ?ranked = "rev (sort_key ?key (rev rs))"
  have 1: "rank_reviews score h rs = (?h', Inr ?ranked)"
    by (rule rank_reviews_Inr)
  have att: "\<forall>a\<in>set rs. sentiment (?h' a) = Some (score (ReviewBody (h a)))"
    by (simp add: attach_sentiment_apply)
  have 2: "mset ?ranked = mset rs" by simp
  have "sorted (map ?key (sort_key ?key (rev rs)))" by (rule sorted_sort_key)
  then have "sorted_wrt (\<lambda>x y. x \<ge> y) (rev (map ?key (sort_key ?key (rev rs))))"
    by (simp only: sorted_wrt_rev)
  then have 3: "sorted_wrt (\<lambda>x y. x \<ge> y) (map ?key ?ranked)"
    by (simp only: rev_map)
  have 4: "\<forall>k. filter (\<lambda>a. ?key a = k) ?ranked = filter (\<lambda>a. ?key a = k) rs"
  proof
    fix k
    have "filter (\<lambda>a. ?key a = k) ?ranked = rev (filter (\<lambda>a. ?key a = k) (sort_key ?key (rev rs)))"
      by (simp add: rev_filter)
    also have "\<dots> = rev (filter (\<lambda>a. ?key a = k) (rev rs))"
      by (simp only: sort_key_stable)
    also have "\<dots> = filter (\<lambda>a. ?key a = k) rs"
      by (simp add: rev_filter [symmetric])
    finally show "filter (\<lambda>a. ?key a = k) ?ranked = filter (\<lambda>a. ?key a = k) rs" .
  qed
  from 1 att 2 3 4 show ?thesis by blast
qed

theorem ranking_stable_descending_witness:
  "\<exists>ranked. snd (rank_reviews example_scores example_heap [0, 1, 2, 3]) = Inr ranked
      \<and> mset ranked = mset [0, 1, 2, 3]
      \<and> filter (\<lambda>a. compound (example_scores (ReviewBody (example_heap a))) = 0) ranked = [0, 3]"
proof -
  have "filter (\<lambda>a. compound (example_scores (ReviewBody (example_heap a))) = 0) [0, 1, 2, 3] = [0, 3]"
    by (simp add: example_heap_simps seeded_def example_scores_def)
  with ranking_stable_descending [of example_scores example_heap "[0, 1, 2, 3]"]
  show ?thesis by auto
qed

section \<open>Creating a review\<close>

text \<open>
  C6: a POST request that supplies \<^verbatim>\<open>ReviewBody\<close> and a \<^verbatim>\<open>Location\<close>
  of the allowed list is answered \<^verbatim>\<open>201 Created\<close> with the new review: the
  location and the body as submitted, the identifier that \<^verbatim>\<open>uuid4\<close> gave, the
  clock's time written as \<^verbatim>\<open>YYYY-MM-DD HH:MM:SS\<close> (a string that the timestamp parser
  of the date filter reads back as that time), and the score of the body. The review is
  appended to the store at a new address, the stored reviews are untouched, and a later
  GET without date parameters, for every location or for the submitted one, lists it.
\<close>

theorem post_creates_review:
  assumes post: "REQUEST_METHOD env = ''POST''"
      and rb: "wsgi_input env ''ReviewBody'' = Some (rb # rbs)"
      and loc: "wsgi_input env ''Location'' = Some (loc # locs)"
      and allowed: "loc \<in> set allowed_locations"
      and get: "REQUEST_METHOD env' = ''GET''"
      and nodates: "QUERY_STRING env' ''start_date'' = None" "QUERY_STRING env' ''end_date'' = None"
      and location: "QUERY_STRING env' ''location'' = None
                     \<or> (\<exists>vs. QUERY_STRING env' ''location'' = Some (loc # vs))"
  shows "\<exists>s' r. call score uuid now env s = (s', Responds ''201 Created'' (JsonReview r))
           \<and> Location r = loc \<and> ReviewBody r = rb \<and> ReviewId r = Some uuid
           \<and> Timestamp r = strftime_ts now
           \<and> (valid_datetime now \<and> 1000 \<le> fst now \<longrightarrow> strptime_ts (Timestamp r) = Some now)
           \<and> sentiment r = Some (score rb)
           \<and> reviews s' = reviews s @ [new_addr (reviews s)]
           \<and> new_addr (reviews s) \<notin> set (reviews s)
           \<and> heap s' (new_addr (reviews s)) = r
           \<and> (\<forall>a\<in>set (reviews s). heap s' a = heap s a)
           \<and> (\<exists>s'' rs. call score uuid' now' env' s' = (s'', Responds ''200 OK'' (JsonReviews rs))
                 \<and> r \<in> set rs)"
proof -
  let ?a = "new_addr (reviews s)"
  let ?r = "\<lparr>ReviewId = Some uuid, ReviewBody = rb, Location = loc,
             Timestamp = strftime_ts now, sentiment = Some (score rb)\<rparr>"
  let ?s' = "\<lparr>reviews = reviews s @ [?a], heap = (heap s)(?a := ?r)\<rparr>"
  have fresh: "?a \<notin> set (reviews s)" by (rule new_addr_fresh)
  have created: "call score uuid now env s = (?s', Responds ''201 Created'' (JsonReview ?r))"
    using post rb loc allowed by (simp add: call_def handle_POST_def Let_def)
  have kept: "\<forall>a\<in>set (reviews s). heap ?s' a = heap s a"
    using fresh by auto
  have parses: "valid_datetime now \<and> 1000 \<le> fst now \<longrightarrow> strptime_ts (strftime_ts now) = Some now"
    by (cases now rule: prod_cases6) (simp add: strptime_strftime)
  obtain filtered where filtered: "filter_reviews (QUERY_STRING env') ?s' = Inr filtered"
    and mem: "?a \<in> set filtered"
  proof (cases "QUERY_STRING env' ''location''")
    case None
    then have "filter_reviews (QUERY_STRING env') ?s' = Inr (reviews ?s')"
      using nodates by (simp add: filter_reviews_def no_dates_returns_input)
    then show ?thesis using that by simp
  next
    case (Some l)
    with location obtain vs where l: "QUERY_STRING env' ''location'' = Some (loc # vs)" by auto
    then have "filter_reviews (QUERY_STRING env') ?s'
                 = Inr (filter (\<lambda>a. Location (heap ?s' a) = loc) (reviews ?s'))"
      using nodates allowed by (simp add: filter_reviews_def no_dates_returns_input)
    then show ?thesis using that by simp
  qed
  let ?h' = "attach_sentiment score (heap ?s') filtered"
  let ?ranked = "rev (sort_key (\<lambda>a. compound (score (ReviewBody (heap ?s' a)))) (rev filtered))"
  have "call score uuid' now' env' ?s'
          = (?s'\<lparr>heap := ?h'\<rparr>, Responds ''200 OK'' (JsonReviews (map ?h' ?ranked)))"
    using get filtered by (simp add: call_def handle_GET_def rank_reviews_Inr)
  moreover have "?h' ?a = ?r"
    using mem by (simp add: attach_sentiment_apply)
  then have "?r \<in> set (map ?h' ?ranked)"
    using mem by (auto simp: image_iff intro!: bexI [of _ ?a])
  ultimately have visible: "\<exists>s'' rs. call score uuid' now' env' ?s'
        = (s'', Responds ''200 OK'' (JsonReviews rs)) \<and> ?r \<in> set rs"
    by blast
  show ?thesis
    apply (rule exI [of _ ?s'])
    apply (rule exI [of _ ?r])
    using created fresh kept visible parses
    apply simp
    done
qed

theorem post_creates_review_witness:
  "\<exists>s' r. call example_scores ''6f1c'' (2024, 6, 5, 1, 2, 3)
            (example_POST [(''ReviewBody'', [''Great stay'']), (''Location'', [''Denver, Colorado''])])
            example_state
          = (s', Responds ''201 Created'' (JsonReview r))
        \<and> Location r = ''Denver, Colorado'' \<and> ReviewId r = Some ''6f1c''
        \<and> Timestamp r = ''2024-06-05 01:02:03''
        \<and> sentiment r = Some (example_scores ''Great stay'')
        \<and> reviews s' = [0, 1, 2, 3, 4]
        \<and> (\<exists>s'' rs. call example_scores [] (2024, 6, 5, 1, 2, 4)
                        (example_GET [(''location'', [''Denver, Colorado''])]) s'
                      = (s'', Responds ''200 OK'' (JsonReviews rs))
              \<and> r \<in> set rs)"
proof -
  let ?post = "example_POST [(''ReviewBody'', [''Great stay'']), (''Location'', [''Denver, Colorado''])]"
  let ?get = "example_GET [(''location'', [''Denver, Colorado''])]"
  have n: "reviews example_state @ [new_addr (reviews example_state)] = [0, 1, 2, 3, 4]"
    by (simp add: new_addr_def example_state_def)
  have h1: "REQUEST_METHOD ?post = ''POST''"
    and h2: "wsgi_input ?post ''ReviewBody'' = Some (''Great stay'' # [])"
    and h3: "wsgi_input ?post ''Location'' = Some (''Denver, Colorado'' # [])"
    by (simp_all add: example_POST_def)
  have h4: "''Denver, Colorado'' \<in> set allowed_locations"
    by (rule example_locations)
  have h5: "REQUEST_METHOD ?get = ''GET''"
    and h6: "QUERY_STRING ?get ''start_date'' = None"
    and h7: "QUERY_STRING ?get ''end_date'' = None"
    and h8: "QUERY_STRING ?get ''location'' = None
             \<or> (\<exists>vs. QUERY_STRING ?get ''location'' = Some (''Denver, Colorado'' # vs))"
    by (simp_all add: example_GET_def)
  from post_creates_review [OF h1 h2 h3 h4 h5 h6 h7 h8,
      of example_scores "''6f1c''" "(2024, 6, 5, 1, 2, 3)" example_state "[]" "(2024, 6, 5, 1, 2, 4)"]
  obtain s' r where
    1: "call example_scores ''6f1c'' (2024, 6, 5, 1, 2, 3) ?post example_state
          = (s', Responds ''201 Created'' (JsonReview r))"
    and 2: "Location r = ''Denver, Colorado''" "ReviewId r = Some ''6f1c''"
      "Timestamp r = strftime_ts (2024, 6, 5, 1, 2, 3)"
      "sentiment r = Some (example_scores ''Great stay'')"
    and 3: "reviews s' = reviews example_state @ [new_addr (reviews example_state)]"
    and 4: "\<exists>s'' rs. call example_scores [] (2024, 6, 5, 1, 2, 4) ?get s'
                       = (s'', Responds ''200 OK'' (JsonReviews rs)) \<and> r \<in> set rs"
    by blast
  from 2 have 5: "Timestamp r = ''2024-06-05 01:02:03''"
    by (simp only: example_strftime)
  from 3 have 6: "reviews s' = [0, 1, 2, 3, 4]"
    by (simp only: n)
  from 1 2(1,2,4) 5 6 4 show ?thesis by blast
qed

section \<open>Rejected submissions\<close>

text \<open>
  C7: a POST request whose form lacks \<^verbatim>\<open>ReviewBody\<close> or lacks
  \<^verbatim>\<open>Location\<close> is answered \<^verbatim>\<open>400 Bad Request\<close> with the error object
  that names the two required fields (the missing-field error of the specification), and
  the store is left as it was.
\<close>

theorem missing_field_bad_request:
  assumes "REQUEST_METHOD env = ''POST''"
      and "wsgi_input env ''ReviewBody'' = None \<or> wsgi_input env ''Location'' = None"
  shows "call score uuid now env s =
           (s, Responds ''400 Bad Request'' (JsonError ''ReviewBody and Location are required''))"
  using assms by (auto simp: call_def handle_POST_def split: option.splits list.splits)

theorem missing_field_bad_request_witness:
  "wsgi_input (example_POST [(''ReviewBody'', [''Great stay''])]) ''Location'' = None
   \<and> call example_scores [] (2024, 6, 5, 1, 2, 3) (example_POST [(''ReviewBody'', [''Great stay''])])
        example_state
       = (example_state,
          Responds ''400 Bad Request'' (JsonError ''ReviewBody and Location are required''))"
proof -
  have "call example_scores [] (2024, 6, 5, 1, 2, 3) (example_POST [(''ReviewBody'', [''Great stay''])])
          example_state
        = (example_state,
           Responds ''400 Bad Request'' (JsonError ''ReviewBody and Location are required''))"
    by (rule missing_field_bad_request) (simp_all add: example_POST_def)
  then show ?thesis by (simp add: example_POST_def)
qed

text \<open>
  C8: a POST request that supplies both fields with a \<^verbatim>\<open>Location\<close> that is not,
  character for character, an entry of the allowed list is answered
  \<^verbatim>\<open>400 Bad Request\<close> with the error \<^verbatim>\<open>Invalid location provided\<close>, and
  no review is created: the store is left as it was.
\<close>

theorem invalid_location_bad_request:
  assumes "REQUEST_METHOD env = ''POST''"
      and "wsgi_input env ''ReviewBody'' = Some (rb # rbs)"
      and "wsgi_input env ''Location'' = Some (loc # locs)"
      and "loc \<notin> set allowed_locations"
  shows "call score uuid now env s =
           (s, Responds ''400 Bad Request'' (JsonError ''Invalid location provided''))"
  using assms by (simp add: call_def handle_POST_def)

theorem invalid_location_bad_request_witness:
  "''denver, colorado'' \<notin> set allowed_locations
   \<and> call example_scores [] (2024, 6, 5, 1, 2, 3)
        (example_POST [(''ReviewBody'', [''Great stay'']), (''Location'', [''denver, colorado''])])
        example_state
       = (example_state, Responds ''400 Bad Request'' (JsonError ''Invalid location provided''))"
proof -
  have "call example_scores [] (2024, 6, 5, 1, 2, 3)
          (example_POST [(''ReviewBody'', [''Great stay'']), (''Location'', [''denver, colorado''])])
          example_state
        = (example_state, Responds ''400 Bad Request'' (JsonError ''Invalid location provided''))"
    by (rule invalid_location_bad_request [where rb = "''Great stay''" and rbs = "[]"
            and loc = "''denver, colorado''" and locs = "[]"])
       (simp_all add: example_POST_def example_locations)
  then show ?thesis by (simp add: example_locations)
qed

text \<open>
  C10: a POST request that is answered \<^verbatim>\<open>400 Bad Request\<close> leaves the store
  exactly as it was: the list and every stored review.
\<close>

theorem bad_request_leaves_store:
  assumes "REQUEST_METHOD env = ''POST''"
      and "call score uuid now env s = (s', Responds ''400 Bad Request'' body)"
  shows "s' = s"
  using assms
  by (auto simp: call_def handle_POST_def Let_def split: option.splits list.splits if_splits)

theorem bad_request_leaves_store_witness:
  "snd (call example_scores [] (2024, 6, 5, 1, 2, 3)
          (example_POST [(''ReviewBody'', [''Great stay'']), (''Location'', [''Nowhere''])])
          example_state)
     = Responds ''400 Bad Request'' (JsonError ''Invalid location provided'')
   \<and> fst (call example_scores [] (2024, 6, 5, 1, 2, 3)
          (example_POST [(''ReviewBody'', [''Great stay'']), (''Location'', [''Nowhere''])])
          example_state)
     = example_state"
proof -
  let ?env = "example_POST [(''ReviewBody'', [''Great stay'']), (''Location'', [''Nowhere''])]"
  let ?c = "call example_scores [] (2024, 6, 5, 1, 2, 3) ?env example_state"
  have "?c = (fst ?c, Responds ''400 Bad Request'' (JsonError ''Invalid location provided''))"
    using example_rejected by (simp add: prod_eq_iff)
  then have "fst ?c = example_state"
    by (rule bad_request_leaves_store [rotated]) (simp add: example_POST_def)
  then show ?thesis using example_rejected by simp
qed

section \<open>The sentiment of a created review on later queries\<close>

text \<open>
  C9: let a POST request create a review, let any sequence of requests follow, and let a
  later GET request list the created review. Then the sentiment that the GET attaches to
  it, computed again from the stored body, is the sentiment of the
  \<^verbatim>\<open>201 Created\<close> response, the compound score included. The analyser is a
  function of the text, which is the determinism that the claim assumes.
\<close>

theorem sentiment_round_trip:
  assumes post: "call score uuid now env s = (s1, Responds ''201 Created'' (JsonReview r))"
      and later: "s2 = serve score reqs s1"
      and get: "REQUEST_METHOD env' = ''GET''"
      and filtered: "filter_reviews (QUERY_STRING env') s2 = Inr filtered"
      and ranked: "rank_reviews score (heap s2) filtered = (h', Inr ranked)"
      and listed: "new_addr (reviews s) \<in> set ranked"
  shows "call score uuid' now' env' s2 = (s2\<lparr>heap := h'\<rparr>, Responds ''200 OK'' (JsonReviews (map h' ranked)))
         \<and> sentiment r = Some (score (ReviewBody r))
         \<and> sentiment (h' (new_addr (reviews s))) = sentiment r"
proof -
  let ?a = "new_addr (reviews s)"
  from created_201 [OF post] obtain rb loc where
    r: "r = \<lparr>ReviewId = Some uuid, ReviewBody = rb, Location = loc,
              Timestamp = strftime_ts now, sentiment = Some (score rb)\<rparr>"
    and s1: "s1 = \<lparr>reviews = reviews s @ [?a], heap = (heap s)(?a := r)\<rparr>"
    by blast
  have "?a \<in> set (reviews s1)" by (simp add: s1)
  from serve_keeps [OF this, of score reqs]
  have body: "ReviewBody (heap s2 ?a) = rb" by (simp add: later s1 r)
  have h': "h' = attach_sentiment score (heap s2) filtered"
    and rk: "ranked = rev (sort_key (\<lambda>a. compound (score (ReviewBody (heap s2 a)))) (rev filtered))"
    using ranked by (simp_all add: rank_reviews_Inr)
  have "?a \<in> set filtered" using listed by (simp add: rk)
  then have "sentiment (h' ?a) = Some (score rb)"
    by (simp add: h' attach_sentiment_apply body)
  moreover have "call score uuid' now' env' s2 =
      (s2\<lparr>heap := h'\<rparr>, Responds ''200 OK'' (JsonReviews (map h' ranked)))"
    using get filtered ranked by (simp add: call_def handle_GET_def)
  ultimately show ?thesis by (simp add: r)
qed

theorem sentiment_round_trip_witness:
  "call example_scores ''6f1c'' (2024, 6, 5, 1, 2, 3)
     (example_POST [(''ReviewBody'', [''Great stay'']), (''Location'', [''Denver, Colorado''])])
     example_state
   = (example_created, Responds ''201 Created'' (JsonReview example_review))
   \<and> sentiment example_review = Some (example_scores ''Great stay'')
   \<and> sentiment (fst (rank_reviews example_scores
        (heap (serve example_scores [([], (2024, 6, 5, 1, 2, 4), example_GET [])] example_created))
        [0, 2, 4]) 4) = Some (example_scores ''Great stay'')"
proof -
  let ?get = "example_GET [(''location'', [''Denver, Colorado''])]"
  let ?s2 = "serve example_scores [([], (2024, 6, 5, 1, 2, 4), example_GET [])] example_created"
  let ?rk = "rank_reviews example_scores (heap ?s2) [0, 2, 4]"
  have get: "REQUEST_METHOD ?get = ''GET''" by (simp add: example_GET_def)
  have ranked: "?rk = (fst ?rk, Inr [4, 0, 2])"
    using example_ranked by (simp add: prod_eq_iff)
  have listed: "new_addr (reviews example_state) \<in> set [4, 0, 2]"
    by (simp add: new_addr_def example_state_def)
  have n: "new_addr (reviews example_state) = 4"
    by (simp add: new_addr_def example_state_def)
  from sentiment_round_trip [OF example_post refl get example_filtered ranked listed]
  have "sentiment (fst ?rk (new_addr (reviews example_state))) = sentiment example_review"
    by blast
  then have "sentiment (fst ?rk 4) = Some (example_scores ''Great stay'')"
    by (simp add: n example_review_def)
  then show ?thesis
    using example_post by (simp add: example_review_def)
qed

end
